theory Spec2Isabelle
  imports Complex_Main
begin

section \<open>Python values shared by the pipeline\<close>

text \<open>
  Exceptions of the Python code are values. \<open>KeyError\<close> carries the missing key
  (its text is the key in quotes),
  \<open>IntegrityError\<close> is SQLAlchemy's constraint violation, \<open>DataError\<close> its error for
  a value that does not fit its column, \<open>PendingRollbackError\<close> its error for a commit
  on a session whose failed transaction was not rolled back, \<open>OtherError\<close> carries the
  text that \<open>str(e)\<close> yields for any other exception (storage outage, adapter failure),
  \<open>HTTPException\<close> is what an endpoint raises to its caller.
\<close>

datatype py_error =
  KeyError string | IntegrityError | DataError | PendingRollbackError
  | OtherError string | HTTPException nat string

fun str_of_error :: "py_error \<Rightarrow> string" where
  "str_of_error (KeyError k) = [CHR 0x27] @ k @ [CHR 0x27]"
| "str_of_error IntegrityError = ''IntegrityError''"
| "str_of_error DataError = ''value too long for type character varying''"
| "str_of_error PendingRollbackError = ''Can not reconnect until invalid transaction is rolled back''"
| "str_of_error (OtherError m) = m"
| "str_of_error (HTTPException code detail) = detail"

text \<open>
  A Python \<open>dict\<close> with string keys is an association list in insertion order.
  \<open>dict_get d k v\<close> is \<open>d.get(k, v)\<close>; \<open>dict_set d k v\<close> is \<open>d[k] = v\<close>, which
  overwrites in place or appends a new key.
\<close>

type_synonym 'v dict = "(string \<times> 'v) list"

fun dict_get :: "'v dict \<Rightarrow> string \<Rightarrow> 'v \<Rightarrow> 'v" where
  "dict_get [] k dflt = dflt"
| "dict_get ((k', v) # d) k dflt = (if k' = k then v else dict_get d k dflt)"

fun dict_contains :: "'v dict \<Rightarrow> string \<Rightarrow> bool" where
  "dict_contains [] k = False"
| "dict_contains ((k', v) # d) k = (k' = k \<or> dict_contains d k)"

fun dict_set :: "'v dict \<Rightarrow> string \<Rightarrow> 'v \<Rightarrow> 'v dict" where
  "dict_set [] k v = [(k, v)]"
| "dict_set ((k', v') # d) k v = (if k' = k then (k, v) # d else (k', v') # dict_set d k v)"


section \<open>processors/pain\_point\_extractor.py\<close>

text \<open>
  The dict that \<open>extract\<close> parses from the language model's JSON answer. Each key may
  be absent (\<open>None\<close>); the values have the types of the docstring of \<open>extract\<close>.
  \<open>d_opportunity_score\<close> and \<open>d_raw_data_id\<close> are the two keys the pipeline adds.
\<close>

record pain_point_dict =
  d_problem_statement :: "string option"
  d_category :: "string option"
  d_severity :: "string option"
  d_context :: "string option"
  d_suggested_solution :: "string option"
  d_tags :: "string list option"
  d_target_audience :: "string option"
  d_related_industry :: "string option"
  d_opportunity_score :: "int option"
  d_raw_data_id :: "nat option"

text \<open>
  Source metadata: the integer-valued entries of the JSON dict stored with a raw item.
  The argument of \<open>_calculate_opportunity\<close> may also be Python's \<open>None\<close>.
\<close>

type_synonym metadata = "int dict"

definition severity_scores :: "int dict" where
  "severity_scores = [(''critical'', 30), (''high'', 20), (''medium'', 10), (''low'', 5)]"

text \<open>\<open>if metadata:\<close> is Python truthiness: neither \<open>None\<close> nor the empty dict.\<close>

fun truthy :: "metadata option \<Rightarrow> bool" where
  "truthy None = False"
| "truthy (Some m) = (m \<noteq> [])"

text \<open>
  \<open>_calculate_opportunity\<close>. \<open>pain_point['severity']\<close> raises \<open>KeyError\<close> when the key is
  absent. Python's \<open>//\<close> on integers is floor division, as \<open>div\<close> on \<open>int\<close> is.
\<close>

definition calculate_opportunity :: "pain_point_dict \<Rightarrow> metadata option \<Rightarrow> py_error + int" where
  "calculate_opportunity pain_point md =
     (case d_severity pain_point of
        None \<Rightarrow> Inl (KeyError ''severity'')
      | Some sev \<Rightarrow>
          (let score = 50;
               score = score + dict_get severity_scores sev 0;
               score = (if truthy md
                        then (let m = the md;
                                  score = score + min (dict_get m ''score'' 0 div 10) 15
                              in score + min (dict_get m ''num_comments'' 0 div 5) 10)
                        else score)
           in Inr (min score 100)))"

subsection \<open>The scoring formula in the specification's words\<close>

text \<open>
  Base 50, plus the severity bonus, plus, when metadata is present, the social-proof
  bonus of engagement score and comment count, the total capped at 100.
\<close>

definition severityBonus :: "string \<Rightarrow> int" where
  "severityBonus s =
     (if s = ''critical'' then 30 else if s = ''high'' then 20
      else if s = ''medium'' then 10 else if s = ''low'' then 5 else 0)"

definition socialBonus :: "(int \<times> int) option \<Rightarrow> int" where
  "socialBonus md =
     (case md of None \<Rightarrow> 0
      | Some (engagementScore, commentCount) \<Rightarrow>
          min (engagementScore div 10) 15 + min (commentCount div 5) 10)"

definition reference_score :: "string \<Rightarrow> (int \<times> int) option \<Rightarrow> int" where
  "reference_score s md = min (50 + severityBonus s + socialBonus md) 100"

text \<open>
  What the specification calls engagement score and comment count are the keys
  \<open>score\<close> and \<open>num_comments\<close> of the metadata dict, read with default 0.
\<close>

definition social_proof :: "metadata option \<Rightarrow> (int \<times> int) option" where
  "social_proof md =
     (case md of None \<Rightarrow> None
      | Some m \<Rightarrow> Some (dict_get m ''score'' 0, dict_get m ''num_comments'' 0))"

definition example_critical :: pain_point_dict where
  "example_critical =
     \<lparr> d_problem_statement = Some ''Exports crash'', d_category = Some ''reliability'',
       d_severity = Some ''critical'', d_context = None, d_suggested_solution = None,
       d_tags = None, d_target_audience = None, d_related_industry = None,
       d_opportunity_score = None, d_raw_data_id = None \<rparr>"

text \<open>
  The answer of the language model to one prompt, as \<open>extract\<close> sees it: the API call
  raises, or the answer holds no JSON object (\<open>ValueError\<close>, \<open>JSONDecodeError\<close>), or it
  parses to a dict.
\<close>

datatype llm_result = ApiFailure py_error | Unparseable | Parsed pain_point_dict

text \<open>
  \<open>PainPointExtractor.extract\<close> (the name \<open>extract\<close> is taken in Isabelle): every exception inside its \<open>try\<close>, also the \<open>KeyError\<close> of
  \<open>_calculate_opportunity\<close>, is logged and turned into \<open>None\<close>.
\<close>

definition extractor_extract :: "(string \<Rightarrow> llm_result) \<Rightarrow> string \<Rightarrow> metadata option \<Rightarrow> pain_point_dict option" where
  "extractor_extract llm text source_metadata =
     (case llm text of
        ApiFailure e \<Rightarrow> None
      | Unparseable \<Rightarrow> None
      | Parsed pain_point \<Rightarrow>
          (case calculate_opportunity pain_point source_metadata of
             Inl e \<Rightarrow> None
           | Inr s \<Rightarrow> Some (pain_point\<lparr>d_opportunity_score := Some s\<rparr>)))"

text \<open>The item dicts handed to \<open>batch_extract\<close>: keys \<open>id\<close>, \<open>content\<close>, \<open>metadata\<close>.\<close>

record extract_item =
  x_id :: nat
  x_content :: string
  x_metadata :: metadata

fun batch_extract :: "(string \<Rightarrow> llm_result) \<Rightarrow> extract_item list \<Rightarrow> pain_point_dict list" where
  "batch_extract llm [] = []"
| "batch_extract llm (item # items) =
     (case extractor_extract llm (x_content item) (Some (x_metadata item)) of
        Some pain_point \<Rightarrow> pain_point\<lparr>d_raw_data_id := Some (x_id item)\<rparr> # batch_extract llm items
      | None \<Rightarrow> batch_extract llm items)"

section \<open>database/models.py\<close>

text \<open>
  The rows of the three tables the pipeline reads and writes, with the columns it uses.
  A nullable column is an \<open>option\<close>; \<open>content\<close> is \<open>nullable=False\<close>, \<open>processed\<close>
  defaults to \<open>False\<close>. Timestamps are seconds.
\<close>

record RawData =
  rd_id :: nat
  rd_source :: string
  rd_source_id :: string
  rd_content :: string
  rd_author :: "string option"
  rd_url :: "string option"
  rd_subreddit :: "string option"
  rd_source_metadata :: "metadata option"
  rd_scraped_at :: "int option"
  rd_sentiment_score :: "real option"
  rd_is_negative :: "bool option"
  rd_processed :: bool

record ExtractionSession =
  es_id :: nat
  es_session_name :: string
  es_items_processed :: nat
  es_pain_points_extracted :: nat
  es_items_skipped :: nat
  es_avg_opportunity_score :: "real option"
  es_high_severity_count :: nat
  es_critical_severity_count :: nat
  es_category_breakdown :: "nat dict option"
  es_severity_breakdown :: "nat dict option"
  es_started_at :: "int option"
  es_completed_at :: "int option"
  es_duration_seconds :: "int option"
  es_status :: string
  es_error_message :: "string option"

record PainPoint =
  pp_raw_data_id :: "nat option"
  pp_extraction_session_id :: "nat option"
  pp_problem_statement :: string
  pp_category :: string
  pp_severity :: string
  pp_context :: "string option"
  pp_related_industry :: "string option"
  pp_target_audience :: "string option"
  pp_suggested_solution :: "string option"
  pp_opportunity_score :: int
  pp_tags :: "string list"

text \<open>The committed content of the database: each table in the order of its rows.\<close>

record db =
  raw_data :: "RawData list"
  pain_points :: "PainPoint list"
  extraction_sessions :: "ExtractionSession list"

section \<open>processors/sentiment\_filter.py\<close>

text \<open>
  A classifier result: the dict that the service answers, with the keys \<open>label\<close> and
  \<open>score\<close> of the docstring of \<open>analyze_sentiment\<close>. The answer is passed on unchecked,
  so either key may be absent (\<open>None\<close>). The score is a Python float; it is only compared
  with 0.7 and negated, both exact on floats, so it is modelled as a real number.
\<close>

record sentiment =
  s_label :: "string option"
  s_score :: "real option"

text \<open>The item dicts of \<open>filter_negative\<close>: \<open>id\<close>, \<open>content\<close> and the two keys it adds.\<close>

record sentiment_item =
  i_id :: nat
  i_content :: string
  i_sentiment_score :: "real option"
  i_is_negative :: "bool option"

text \<open>
  \<open>analyze_sentiment\<close>. The first argument is the classifier service: the outcome of
  the HTTP request for a text, an exception or the first entry of the result. The request
  carries \<open>text[:1000]\<close>; any exception yields the neutral result.
\<close>

definition analyze_sentiment :: "(string \<Rightarrow> py_error + sentiment) \<Rightarrow> string \<Rightarrow> sentiment" where
  "analyze_sentiment classifier text =
     (case classifier (take 1000 text) of
        Inr result \<Rightarrow> result
      | Inl e \<Rightarrow> \<lparr> s_label = Some ''NEUTRAL'', s_score = Some 0.5 \<rparr>)"

text \<open>
  \<open>filter_negative\<close>. \<open>sentiment['label']\<close> and \<open>sentiment['score']\<close> are read outside
  any \<open>try\<close>: a missing key raises \<open>KeyError\<close> and ends the loop. \<open>and\<close> evaluates the
  score only when the label is NEGATIVE.
\<close>

fun filter_negative :: "(string \<Rightarrow> py_error + sentiment) \<Rightarrow> sentiment_item list \<Rightarrow> py_error + sentiment_item list" where
  "filter_negative classifier [] = Inr []"
| "filter_negative classifier (item # items) =
     (let sentiment = analyze_sentiment classifier (i_content item)
      in case s_label sentiment of
           None \<Rightarrow> Inl (KeyError ''label'')
         | Some label \<Rightarrow>
             if label = ''NEGATIVE'' then
               (case s_score sentiment of
                  None \<Rightarrow> Inl (KeyError ''score'')
                | Some score \<Rightarrow>
                    if score > 0.7 then
                      (case filter_negative classifier items of
                         Inl e \<Rightarrow> Inl e
                       | Inr filtered \<Rightarrow>
                           Inr (item\<lparr>i_sentiment_score := Some (- score), i_is_negative := Some True\<rparr>
                                # filtered))
                    else filter_negative classifier items)
             else filter_negative classifier items)"

definition failing_classifier :: "string \<Rightarrow> py_error + sentiment" where
  "failing_classifier text = Inl (OtherError ''timeout'')"

section \<open>main.py and tasks/scheduler.py: the sentiment pass\<close>

text \<open>
  The query of \<open>process_sentiment\<close>: rows with \<open>processed == False\<close> and
  \<open>sentiment_score == None\<close>, at most \<open>limit\<close> of them.
\<close>

definition unprocessed_items :: "nat \<Rightarrow> db \<Rightarrow> RawData list" where
  "unprocessed_items limit d =
     take limit (filter (\<lambda>item. \<not> rd_processed item \<and> rd_sentiment_score item = None) (raw_data d))"

definition item_dict :: "RawData \<Rightarrow> sentiment_item" where
  "item_dict item =
     \<lparr> i_id = rd_id item, i_content = rd_content item,
       i_sentiment_score = None, i_is_negative = None \<rparr>"

text \<open>
  The body of the update loop for one row. \<open>next(...)\<close> takes the first negative item
  with the row's id; the loop reaches it only when there is one.
\<close>

definition mark_item :: "sentiment_item list \<Rightarrow> RawData \<Rightarrow> RawData" where
  "mark_item negative_items item =
     (let item = (if rd_id item \<in> set (map i_id negative_items)
                  then item\<lparr> rd_is_negative := Some True,
                             rd_sentiment_score :=
                               (case find (\<lambda>i. i_id i = rd_id item) negative_items of
                                  Some i \<Rightarrow> i_sentiment_score i
                                | None \<Rightarrow> rd_sentiment_score item) \<rparr>
                  else item)
      in item\<lparr> rd_processed := True \<rparr>)"

text \<open>\<open>db.commit()\<close> writes each changed row back under its primary key.\<close>

definition commit_rows :: "RawData list \<Rightarrow> RawData list \<Rightarrow> RawData list" where
  "commit_rows changed rows =
     map (\<lambda>row. case find (\<lambda>c. rd_id c = rd_id row) changed of
                  Some c \<Rightarrow> c
                | None \<Rightarrow> row) rows"

datatype sentiment_response = NoItemsToProcess | Processed nat nat

text \<open>
  \<open>process_sentiment\<close> of main.py. An exception of \<open>filter_negative\<close> reaches the
  handler before any row is changed: the endpoint raises \<open>HTTPException(500)\<close> and
  nothing is committed.
\<close>

definition process_sentiment :: "(string \<Rightarrow> py_error + sentiment) \<Rightarrow> nat \<Rightarrow> db \<Rightarrow> (py_error + sentiment_response) \<times> db" where
  "process_sentiment classifier limit d =
     (let items = unprocessed_items limit d
      in if items = [] then (Inr NoItemsToProcess, d)
         else
           (let items_dict = map item_dict items
            in case filter_negative classifier items_dict of
                 Inl e \<Rightarrow> (Inl (HTTPException 500 (str_of_error e)), d)
               | Inr negative_items \<Rightarrow>
                   (let changed = map (mark_item negative_items) items
                    in (Inr (Processed (length items) (length negative_items)),
                        d\<lparr> raw_data := commit_rows changed (raw_data d) \<rparr>))))"

text \<open>
  The Celery task of tasks/scheduler.py: the same pass with the limit fixed at 100 and no
  handler, so an exception of \<open>filter_negative\<close> ends the task, nothing committed.
\<close>

definition task_process_sentiment :: "(string \<Rightarrow> py_error + sentiment) \<Rightarrow> db \<Rightarrow> (py_error + sentiment_response) \<times> db" where
  "task_process_sentiment classifier d =
     (let items = take 100 (filter (\<lambda>item. \<not> rd_processed item \<and> rd_sentiment_score item = None)
                              (raw_data d))
      in if items = [] then (Inr NoItemsToProcess, d)
         else
           (let items_dict = map item_dict items
            in case filter_negative classifier items_dict of
                 Inl e \<Rightarrow> (Inl e, d)
               | Inr negative_items \<Rightarrow>
                   (let changed = map (mark_item negative_items) items
                    in (Inr (Processed (length items) (length negative_items)),
                        d\<lparr> raw_data := commit_rows changed (raw_data d) \<rparr>))))"

subsection \<open>Vocabulary of the statements about the sentiment pass\<close>

text \<open>
  An answer is readable when \<open>filter_negative\<close> finds every key it reads: the label,
  and the score when the label is NEGATIVE. It is negative when the label is NEGATIVE and
  the score exceeds 0.7.
\<close>

definition answer_readable :: "sentiment \<Rightarrow> bool" where
  "answer_readable s =
     (case s_label s of
        None \<Rightarrow> False
      | Some l \<Rightarrow> (if l = ''NEGATIVE'' then s_score s \<noteq> None else True))"

definition answer_negative :: "sentiment \<Rightarrow> bool" where
  "answer_negative s =
     (s_label s = Some ''NEGATIVE'' \<and> (case s_score s of None \<Rightarrow> False | Some c \<Rightarrow> c > 0.7))"

section \<open>main.py: ingestion with duplicate handling\<close>

text \<open>
  An item as the Reddit scraper returns it: the keys \<open>scrape_reddit_by_sort\<close> reads.
\<close>

record CandidateItem =
  c_source :: string
  c_source_id :: string
  c_content :: string
  c_author :: string
  c_url :: string
  c_subreddit :: "string option"
  c_metadata :: "metadata option"
  c_created_utc :: "int option"

text \<open>The primary key of a new row is fresh: one more than every key in the table.\<close>

definition fresh_id :: "nat list \<Rightarrow> nat" where
  "fresh_id ids = Suc (fold max ids 0)"








subsection \<open>Vocabulary of the statements about ingestion\<close>

text \<open>
  The items of a batch that count as accepted: those whose \<open>source_id\<close> is neither
  stored already nor met earlier in the batch.
\<close>

fun accepted_items :: "string list \<Rightarrow> CandidateItem list \<Rightarrow> CandidateItem list" where
  "accepted_items stored [] = []"
| "accepted_items stored (item # items) =
     (if c_source_id item \<in> set stored then accepted_items stored items
      else item # accepted_items (c_source_id item # stored) items)"





section \<open>main.py: the extraction session\<close>

text \<open>
  What one run of \<open>extract_pain_points\<close> meets outside the database content: the clock
  (\<open>datetime.now()\<close> at the start and at the end, and the formatted start time of the
  session name), and the outcome of each call that can raise after the session is
  opened: the selection queries, the construction of \<open>PainPointExtractor\<close> (which
  yields the language model when it succeeds), the commit of the results, and reaching
  the database for the commit inside the exception handler. \<open>start_label\<close> is
  \<open>start_time.strftime('%Y-%m-%d %H:%M')\<close>.
\<close>

record run_env =
  start_time :: int
  start_label :: string
  end_time :: int
  select_fault :: "py_error option"
  extractor_init :: "py_error + (string \<Rightarrow> llm_result)"
  commit_fault :: "py_error option"
  handler_commit_fault :: "py_error option"

text \<open>The new \<open>ExtractionSession\<close> row, with the column defaults of models.py.\<close>

definition new_session :: "run_env \<Rightarrow> nat \<Rightarrow> ExtractionSession" where
  "new_session env n =
     \<lparr> es_id = n, es_session_name = ''Analysis '' @ start_label env,
       es_items_processed = 0, es_pain_points_extracted = 0, es_items_skipped = 0,
       es_avg_opportunity_score = None, es_high_severity_count = 0,
       es_critical_severity_count = 0, es_category_breakdown = None,
       es_severity_breakdown = None, es_started_at = Some (start_time env),
       es_completed_at = None, es_duration_seconds = None,
       es_status = ''in_progress'', es_error_message = None \<rparr>"

text \<open>A commit writes the session object back under its primary key.\<close>

definition put_session :: "ExtractionSession \<Rightarrow> db \<Rightarrow> db" where
  "put_session session d =
     d\<lparr> extraction_sessions :=
          map (\<lambda>s. if es_id s = es_id session then session else s) (extraction_sessions d) \<rparr>"

text \<open>
  The ids of raw items that already have a pain point:
  \<open>query(PainPoint.raw_data_id).filter(raw_data_id != None).distinct()\<close>.
\<close>

definition processed_ids :: "db \<Rightarrow> nat list" where
  "processed_ids d = remdups (List.map_filter pp_raw_data_id (pain_points d))"

text \<open>
  The candidate query. \<open>RawData.content != None\<close> holds of every row, the column being
  \<open>nullable=False\<close>; the anti-join is applied when \<open>processed_ids\<close> is not empty.
\<close>

definition candidate_items :: "nat \<Rightarrow> db \<Rightarrow> RawData list" where
  "candidate_items limit d =
     (let ids = processed_ids d
      in take limit (filter (\<lambda>item. if ids \<noteq> [] then rd_id item \<notin> set ids else True)
                       (raw_data d)))"

definition to_extract_item :: "RawData \<Rightarrow> extract_item" where
  "to_extract_item item =
     \<lparr> x_id = rd_id item, x_content = rd_content item,
       x_metadata = (if truthy (rd_source_metadata item) then the (rd_source_metadata item) else []) \<rparr>"

text \<open>
  The constructor call \<open>PainPoint(...)\<close> of the save loop: \<open>pp_data['problem_statement']\<close>,
  \<open>pp_data['category']\<close> and \<open>pp_data['severity']\<close> raise \<open>KeyError\<close> when absent, the
  other keys are read with \<open>get\<close>.
\<close>

definition make_pain_point :: "nat \<Rightarrow> pain_point_dict \<Rightarrow> py_error + PainPoint" where
  "make_pain_point session_id pp_data =
     (case d_problem_statement pp_data of
        None \<Rightarrow> Inl (KeyError ''problem_statement'')
      | Some problem \<Rightarrow>
     (case d_category pp_data of
        None \<Rightarrow> Inl (KeyError ''category'')
      | Some cat \<Rightarrow>
     (case d_severity pp_data of
        None \<Rightarrow> Inl (KeyError ''severity'')
      | Some sev \<Rightarrow>
          Inr \<lparr> pp_raw_data_id = d_raw_data_id pp_data,
                pp_extraction_session_id = Some session_id,
                pp_problem_statement = problem, pp_category = cat, pp_severity = sev,
                pp_context = d_context pp_data,
                pp_related_industry = d_related_industry pp_data,
                pp_target_audience = d_target_audience pp_data,
                pp_suggested_solution = d_suggested_solution pp_data,
                pp_opportunity_score =
                  (case d_opportunity_score pp_data of None \<Rightarrow> 50 | Some s \<Rightarrow> s),
                pp_tags = (case d_tags pp_data of None \<Rightarrow> [] | Some ts \<Rightarrow> ts) \<rparr>)))"

text \<open>The running state of the save loop.\<close>

record tally =
  added :: "PainPoint list"
  saved_count :: nat
  category_counts :: "nat dict"
  severity_counts :: "nat dict"
  total_opportunity_score :: int

definition initial_tally :: tally where
  "initial_tally =
     \<lparr> added = [], saved_count = 0, category_counts = [],
       severity_counts = [(''critical'', 0), (''high'', 0), (''medium'', 0), (''low'', 0)],
       total_opportunity_score = 0 \<rparr>"

text \<open>
  One round of the save loop. An exception of the constructor is logged and the loop
  continues with the next draft, nothing having changed.
\<close>

definition save_pain_point :: "nat \<Rightarrow> pain_point_dict \<Rightarrow> tally \<Rightarrow> tally" where
  "save_pain_point session_id pp_data t =
     (case make_pain_point session_id pp_data of
        Inl e \<Rightarrow> t
      | Inr pain_point \<Rightarrow>
          (let category = (case d_category pp_data of None \<Rightarrow> ''other'' | Some c \<Rightarrow> c);
               severity = (case d_severity pp_data of None \<Rightarrow> ''low'' | Some s \<Rightarrow> s)
           in \<lparr> added = added t @ [pain_point],
                saved_count = saved_count t + 1,
                category_counts =
                  dict_set (category_counts t) category
                    (dict_get (category_counts t) category 0 + 1),
                severity_counts =
                  (if dict_contains (severity_counts t) severity
                   then dict_set (severity_counts t) severity
                          (dict_get (severity_counts t) severity 0 + 1)
                   else severity_counts t),
                total_opportunity_score =
                  total_opportunity_score t +
                  (case d_opportunity_score pp_data of None \<Rightarrow> 50 | Some s \<Rightarrow> s) \<rparr>))"

record extract_response =
  resp_session_id :: nat
  resp_pain_points_extracted :: nat
  resp_items_processed :: nat
  resp_items_skipped :: nat
  resp_duration_seconds :: "int option"

text \<open>
  The declared lengths of the \<open>pain_points\<close> columns: \<open>category\<close>, \<open>related_industry\<close>
  and \<open>target_audience\<close> are \<open>String(100)\<close>, \<open>severity\<close> is \<open>String(20)\<close>.
\<close>

definition fits_pain_point :: "PainPoint \<Rightarrow> bool" where
  "fits_pain_point p =
     (length (pp_category p) \<le> 100 \<and> length (pp_severity p) \<le> 20
      \<and> (case pp_related_industry p of None \<Rightarrow> True | Some s \<Rightarrow> length s \<le> 100)
      \<and> (case pp_target_audience p of None \<Rightarrow> True | Some s \<Rightarrow> length s \<le> 100))"

text \<open>
  An exception that escapes the body of the \<open>try\<close>, with where it was raised: by the
  database session (a query or a commit), or elsewhere.
\<close>

datatype raised = FromDatabase py_error | FromElsewhere py_error

text \<open>
  The body of the \<open>try\<close> after the session is opened: \<open>Inl\<close> is an exception that
  escapes it, \<open>Inr\<close> the response with the committed database. The commit of the
  results raises what reaching the database raises, and \<open>DataError\<close> when a pain point
  does not fit its columns.
\<close>

definition run_session :: "run_env \<Rightarrow> nat \<Rightarrow> ExtractionSession \<Rightarrow> db \<Rightarrow> raised + extract_response \<times> db" where
  "run_session env limit session d =
     (case select_fault env of
        Some e \<Rightarrow> Inl (FromDatabase e)
      | None \<Rightarrow>
          (let items = candidate_items limit d
           in if items = [] then
                (case commit_fault env of
                   Some e \<Rightarrow> Inl (FromDatabase e)
                 | None \<Rightarrow>
                     Inr (\<lparr> resp_session_id = es_id session, resp_pain_points_extracted = 0,
                            resp_items_processed = 0, resp_items_skipped = 0,
                            resp_duration_seconds = None \<rparr>,
                          put_session
                            (session\<lparr> es_status := ''completed'',
                                      es_completed_at := Some (end_time env),
                                      es_items_processed := 0,
                                      es_pain_points_extracted := 0 \<rparr>) d))
              else
                (let items_dict = map to_extract_item items
                 in case extractor_init env of
                      Inl e \<Rightarrow> Inl (FromElsewhere e)
                    | Inr llm \<Rightarrow>
                        (let pain_points_data = batch_extract llm items_dict;
                             t = fold (save_pain_point (es_id session)) pain_points_data initial_tally;
                             avg_opportunity_score =
                               (if saved_count t > 0
                                then real_of_int (total_opportunity_score t) / real (saved_count t)
                                else 0);
                             duration_seconds = end_time env - start_time env
                         in case commit_fault env of
                              Some e \<Rightarrow> Inl (FromDatabase e)
                            | None \<Rightarrow>
                                if \<not> list_all fits_pain_point (added t) then Inl (FromDatabase DataError)
                                else
                                Inr (\<lparr> resp_session_id = es_id session,
                                       resp_pain_points_extracted = saved_count t,
                                       resp_items_processed = length items,
                                       resp_items_skipped = length items - saved_count t,
                                       resp_duration_seconds = Some duration_seconds \<rparr>,
                                     put_session
                                       (session\<lparr> es_items_processed := length items,
                                                 es_pain_points_extracted := saved_count t,
                                                 es_items_skipped := length items - saved_count t,
                                                 es_avg_opportunity_score := Some avg_opportunity_score,
                                                 es_high_severity_count :=
                                                   dict_get (severity_counts t) ''high'' 0,
                                                 es_critical_severity_count :=
                                                   dict_get (severity_counts t) ''critical'' 0,
                                                 es_category_breakdown := Some (category_counts t),
                                                 es_severity_breakdown := Some (severity_counts t),
                                                 es_completed_at := Some (end_time env),
                                                 es_duration_seconds := Some duration_seconds,
                                                 es_status := ''completed'' \<rparr>)
                                       (d\<lparr> pain_points := pain_points d @ added t \<rparr>))))))"

text \<open>
  \<open>extract_pain_points\<close>: the session is created and committed, the body runs, and the
  handler of an escaping exception sets the session to failed, commits and raises
  \<open>HTTPException(500)\<close>. The handler does not call \<open>db.rollback()\<close>: after an exception
  that the database session raised, its commit raises \<open>PendingRollbackError\<close>, which
  escapes in place of the \<open>HTTPException\<close>, and the stored session stays as it was
  opened. After any other exception the commit stores the failed session, unless reaching
  the database raises then. Nothing added in a body that raised is stored.
\<close>

definition extract_pain_points :: "run_env \<Rightarrow> nat \<Rightarrow> db \<Rightarrow> (py_error + extract_response) \<times> db" where
  "extract_pain_points env limit d0 =
     (let extraction_session = new_session env (fresh_id (map es_id (extraction_sessions d0)));
          d = d0\<lparr> extraction_sessions := extraction_sessions d0 @ [extraction_session] \<rparr>
      in case run_session env limit extraction_session d of
           Inr (response, d') \<Rightarrow> (Inr response, d')
         | Inl (FromDatabase e) \<Rightarrow> (Inl PendingRollbackError, d)
         | Inl (FromElsewhere e) \<Rightarrow>
             (case handler_commit_fault env of
                None \<Rightarrow>
                  (Inl (HTTPException 500 (str_of_error e)),
                   put_session
                     (extraction_session\<lparr> es_status := ''failed'',
                                          es_error_message := Some (str_of_error e),
                                          es_completed_at := Some (end_time env) \<rparr>) d)
              | Some e' \<Rightarrow> (Inl e', d)))"

section \<open>tasks/scheduler.py: the extraction task\<close>

text \<open>
  The scheduled task \<open>extract_pain_points\<close> selects the rows with \<open>is_negative == True\<close>,
  at most 50, with no anti-join, and opens no session. Its item dicts carry
  \<open>'metadata': item.metadata or {}\<close>. \<open>RawData\<close> has no column of that name (models.py
  names the column \<open>source_metadata\<close>, "renamed from 'metadata' to avoid SQLAlchemy
  conflict"): \<open>item.metadata\<close> is the \<open>MetaData\<close> registry of the declarative base, an
  object that is truthy and has no \<open>get\<close>. With it \<open>_calculate_opportunity\<close> raises:
  \<open>KeyError\<close> at \<open>pain_point['severity']\<close> when the key is absent, \<open>AttributeError\<close> at
  \<open>metadata.get\<close> otherwise.
\<close>

definition calculate_opportunity_registry :: "pain_point_dict \<Rightarrow> py_error + int" where
  "calculate_opportunity_registry pain_point =
     (case d_severity pain_point of
        None \<Rightarrow> Inl (KeyError ''severity'')
      | Some sev \<Rightarrow> Inl (OtherError ''MetaData object has no attribute get''))"

text \<open>\<open>extract\<close> and \<open>batch_extract\<close> as the task calls them, on the selected rows.\<close>

definition task_extract :: "(string \<Rightarrow> llm_result) \<Rightarrow> string \<Rightarrow> pain_point_dict option" where
  "task_extract llm text =
     (case llm text of
        ApiFailure e \<Rightarrow> None
      | Unparseable \<Rightarrow> None
      | Parsed pain_point \<Rightarrow>
          (case calculate_opportunity_registry pain_point of
             Inl e \<Rightarrow> None
           | Inr s \<Rightarrow> Some (pain_point\<lparr>d_opportunity_score := Some s\<rparr>)))"

fun task_batch_extract :: "(string \<Rightarrow> llm_result) \<Rightarrow> RawData list \<Rightarrow> pain_point_dict list" where
  "task_batch_extract llm [] = []"
| "task_batch_extract llm (item # items) =
     (case task_extract llm (rd_content item) of
        Some pain_point \<Rightarrow>
          pain_point\<lparr>d_raw_data_id := Some (rd_id item)\<rparr> # task_batch_extract llm items
      | None \<Rightarrow> task_batch_extract llm items)"

text \<open>
  The save loop of the task: the constructor call names no session, and no \<open>try\<close>
  surrounds it, so a \<open>KeyError\<close> ends the task before its commit.
\<close>

definition task_pain_point :: "pain_point_dict \<Rightarrow> py_error + PainPoint" where
  "task_pain_point pp_data =
     (case d_problem_statement pp_data of
        None \<Rightarrow> Inl (KeyError ''problem_statement'')
      | Some problem \<Rightarrow>
     (case d_category pp_data of
        None \<Rightarrow> Inl (KeyError ''category'')
      | Some cat \<Rightarrow>
     (case d_severity pp_data of
        None \<Rightarrow> Inl (KeyError ''severity'')
      | Some sev \<Rightarrow>
          Inr \<lparr> pp_raw_data_id = d_raw_data_id pp_data,
                pp_extraction_session_id = None,
                pp_problem_statement = problem, pp_category = cat, pp_severity = sev,
                pp_context = d_context pp_data,
                pp_related_industry = d_related_industry pp_data,
                pp_target_audience = d_target_audience pp_data,
                pp_suggested_solution = d_suggested_solution pp_data,
                pp_opportunity_score =
                  (case d_opportunity_score pp_data of None \<Rightarrow> 50 | Some s \<Rightarrow> s),
                pp_tags = (case d_tags pp_data of None \<Rightarrow> [] | Some ts \<Rightarrow> ts) \<rparr>)))"

fun task_save :: "pain_point_dict list \<Rightarrow> py_error + PainPoint list" where
  "task_save [] = Inr []"
| "task_save (pp_data # rest) =
     (case task_pain_point pp_data of
        Inl e \<Rightarrow> Inl e
      | Inr pain_point \<Rightarrow>
          (case task_save rest of
             Inl e \<Rightarrow> Inl e
           | Inr saved \<Rightarrow> Inr (pain_point # saved)))"

datatype task_response = NoItemsToExtract | Extracted nat

definition task_extract_pain_points :: "(py_error + (string \<Rightarrow> llm_result)) \<Rightarrow> db \<Rightarrow> (py_error + task_response) \<times> db" where
  "task_extract_pain_points init d =
     (let items = take 50 (filter (\<lambda>item. rd_is_negative item = Some True) (raw_data d))
      in if items = [] then (Inr NoItemsToExtract, d)
         else
           (case init of
              Inl e \<Rightarrow> (Inl e, d)
            | Inr llm \<Rightarrow>
                (let pain_points_data = task_batch_extract llm items
                 in case task_save pain_points_data of
                      Inl e \<Rightarrow> (Inl e, d)
                    | Inr new \<Rightarrow>
                        if \<not> list_all fits_pain_point new then (Inl DataError, d)
                        else (Inr (Extracted (length pain_points_data)),
                              d\<lparr> pain_points := pain_points d @ new \<rparr>))))"

section \<open>Sequences of extraction runs\<close>

text \<open>
  One extraction run is a call of the endpoint, with its environment and limit, or a run
  of the scheduled task, with the outcome of constructing its extractor.
\<close>

datatype extraction_run =
  Endpoint run_env nat | ScheduledTask "py_error + (string \<Rightarrow> llm_result)"

fun run_extraction :: "extraction_run \<Rightarrow> db \<Rightarrow> db" where
  "run_extraction (Endpoint env limit) d = snd (extract_pain_points env limit d)"
| "run_extraction (ScheduledTask init) d = snd (task_extract_pain_points init d)"

fun run_extractions :: "extraction_run list \<Rightarrow> db \<Rightarrow> db" where
  "run_extractions [] d = d"
| "run_extractions (run # runs) d = run_extractions runs (run_extraction run d)"

section \<open>Vocabulary of the properties\<close>




section \<open>Example inputs\<close>

definition fresh_item :: "nat \<Rightarrow> string \<Rightarrow> string \<Rightarrow> RawData" where
  "fresh_item n sid text =
     \<lparr> rd_id = n, rd_source = ''reddit'', rd_source_id = sid, rd_content = text,
       rd_author = None, rd_url = None, rd_subreddit = None, rd_source_metadata = None,
       rd_scraped_at = Some 1690000000, rd_sentiment_score = None, rd_is_negative = None,
       rd_processed = False \<rparr>"

definition empty_db :: db where
  "empty_db = \<lparr> raw_data = [], pain_points = [], extraction_sessions = [] \<rparr>"

definition one_item_db :: db where
  "one_item_db = empty_db\<lparr> raw_data := [fresh_item 1 ''t3_abc'' ''The export is slow''] \<rparr>"

definition scored_item :: RawData where
  "scored_item = (fresh_item 2 ''t3_def'' ''Billing is broken'')\<lparr> rd_sentiment_score := Some (- 0.9) \<rparr>"

definition two_item_db :: db where
  "two_item_db =
     empty_db\<lparr> raw_data := [fresh_item 1 ''t3_abc'' ''The export is slow'', scored_item] \<rparr>"


definition critical_llm :: "string \<Rightarrow> llm_result" where
  "critical_llm prompt = Parsed example_critical"

definition unavailable_env :: run_env where
  "unavailable_env =
     \<lparr> start_time = 1000, start_label = ''2024-01-01 12:00'', end_time = 1060,
       select_fault = None,
       extractor_init = Inl (OtherError ''The api_key client option must be set''),
       commit_fault = None, handler_commit_fault = None \<rparr>"

definition reset_env :: run_env where
  "reset_env =
     \<lparr> start_time = 1000, start_label = ''2024-01-01 12:00'', end_time = 1060,
       select_fault = Some (OtherError ''server closed the connection unexpectedly''),
       extractor_init = Inr critical_llm,
       commit_fault = None, handler_commit_fault = None \<rparr>"



definition wordy_llm :: "string \<Rightarrow> llm_result" where
  "wordy_llm prompt =
     Parsed (example_critical\<lparr> d_severity := Some ''critical: customers are leaving'' \<rparr>)"

definition wordy_env :: run_env where
  "wordy_env =
     \<lparr> start_time = 1000, start_label = ''2024-01-01 12:00'', end_time = 1060,
       select_fault = None, extractor_init = Inr wordy_llm,
       commit_fault = None, handler_commit_fault = None \<rparr>"




section \<open>Opportunity score\<close>

lemma severity_bonus_lookup: "dict_get severity_scores s 0 = severityBonus s"
  by (simp add: severity_scores_def severityBonus_def)

lemma severity_bonus_range: "0 \<le> severityBonus s \<and> severityBonus s \<le> 30"
  by (simp add: severityBonus_def)

lemma calculate_opportunity_upper:
  "calculate_opportunity pain_point md = Inr s \<Longrightarrow> s \<le> 100"
  by (auto simp: calculate_opportunity_def Let_def split: option.splits if_splits)

lemma calculate_opportunity_lower_nonneg:
  assumes "calculate_opportunity pain_point md = Inr s"
    and "0 \<le> dict_get (case md of None \<Rightarrow> [] | Some m \<Rightarrow> m) ''score'' 0"
    and "0 \<le> dict_get (case md of None \<Rightarrow> [] | Some m \<Rightarrow> m) ''num_comments'' 0"
  shows "50 \<le> s"
proof (cases "d_severity pain_point")
  case None
  with assms(1) show ?thesis by (simp add: calculate_opportunity_def)
next
  case (Some sev)
  have b: "0 \<le> severityBonus sev" using severity_bonus_range by blast
  show ?thesis
  proof (cases "truthy md")
    case False
    with Some assms(1) b show ?thesis
      by (auto simp: calculate_opportunity_def Let_def severity_bonus_lookup)
  next
    case True
    then obtain m where m: "md = Some m" by (cases md) auto
    from assms(2,3) m have "0 \<le> dict_get m ''score'' 0 div 10"
      and "0 \<le> dict_get m ''num_comments'' 0 div 5"
      by (simp_all add: pos_imp_zdiv_nonneg_iff)
    with Some assms(1) b True m show ?thesis
      by (auto simp: calculate_opportunity_def Let_def severity_bonus_lookup)
  qed
qed

text \<open>
  C3. The claim: for every extraction result and every metadata value, also with negative
  engagement or comment counts, the opportunity score lies in [1, 100]. The code caps the
  score at 100 and has no lower clamp: for severity \<open>low\<close> and a metadata score of -1000
  it returns -45, although the docstring of \<open>_calculate_opportunity\<close> promises 1-100.
\<close>

theorem opportunity_score_below_one:
  "calculate_opportunity (example_critical\<lparr>d_severity := Some ''low''\<rparr>)
     (Some [(''score'', -1000), (''num_comments'', 0)]) = Inr (-45)"
  by (simp add: calculate_opportunity_def example_critical_def severity_scores_def Let_def)

text \<open>
  C4. The opportunity score is the reference formula of the specification: base 50, the
  severity bonus (critical 30, high 20, medium 10, low 5, anything else 0), and, when
  metadata is present, min(floor(score/10), 15) + min(floor(comments/5), 10), capped at
  100. Severity critical with engagement 120 and 30 comments yields 98.
\<close>

theorem opportunity_score_is_reference:
  "(d_severity pain_point = Some sev \<longrightarrow>
      calculate_opportunity pain_point md = Inr (reference_score sev (social_proof md)))
   \<and> calculate_opportunity example_critical (Some [(''score'', 120), (''num_comments'', 30)])
       = Inr 98"
proof (intro conjI impI)
  assume sev: "d_severity pain_point = Some sev"
  show "calculate_opportunity pain_point md = Inr (reference_score sev (social_proof md))"
  proof (cases md)
    case None
    with sev show ?thesis
      by (simp add: calculate_opportunity_def reference_score_def social_proof_def
          socialBonus_def severity_bonus_lookup)
  next
    case (Some m)
    with sev show ?thesis
      by (cases m)
        (simp_all add: calculate_opportunity_def reference_score_def social_proof_def
          socialBonus_def severity_bonus_lookup Let_def add.assoc)
  qed
next
  show "calculate_opportunity example_critical (Some [(''score'', 120), (''num_comments'', 30)])
       = Inr 98"
    by (simp add: calculate_opportunity_def example_critical_def severity_scores_def Let_def)
qed

theorem opportunity_score_is_reference_witness:
  "d_severity example_critical = Some ''critical''
   \<and> calculate_opportunity example_critical (Some [(''score'', 120), (''num_comments'', 30)])
       = Inr (reference_score ''critical'' (Some (120, 30)))
   \<and> reference_score ''critical'' (Some (120, 30)) = 98"
  using opportunity_score_is_reference
    [of example_critical "''critical''" "Some [(''score'', 120), (''num_comments'', 30)]"]
  by (simp add: example_critical_def social_proof_def reference_score_def severityBonus_def
      socialBonus_def)

section \<open>Sentiment classification\<close>

lemma filter_negative_characterisation:
  "filter_negative classifier items =
     (case find (\<lambda>item. \<not> answer_readable (analyze_sentiment classifier (i_content item))) items of
        None \<Rightarrow>
          Inr (map (\<lambda>item. item\<lparr>i_sentiment_score :=
                                   map_option uminus (s_score (analyze_sentiment classifier (i_content item))),
                                 i_is_negative := Some True\<rparr>)
                 (filter (\<lambda>item. answer_negative (analyze_sentiment classifier (i_content item))) items))
      | Some bad \<Rightarrow>
          Inl (KeyError (if s_label (analyze_sentiment classifier (i_content bad)) = None
                         then ''label'' else ''score'')))"
proof (induction items)
  case Nil
  show ?case by simp
next
  case (Cons item items)
  let ?s = "analyze_sentiment classifier (i_content item)"
  show ?case
  proof (cases "s_label ?s")
    case None
    then have "\<not> answer_readable ?s" by (simp add: answer_readable_def)
    with None show ?thesis by simp
  next
    case (Some l)
    note label = this
    show ?thesis
    proof (cases "l = ''NEGATIVE''")
      case False
      with label have "answer_readable ?s" and "\<not> answer_negative ?s"
        by (simp_all add: answer_readable_def answer_negative_def)
      with label False Cons.IH show ?thesis by (simp split: option.splits)
    next
      case True
      show ?thesis
      proof (cases "s_score ?s")
        case None
        with label True have "\<not> answer_readable ?s" by (simp add: answer_readable_def)
        with label True None show ?thesis by simp
      next
        case (Some c)
        with label True have r: "answer_readable ?s" and n: "answer_negative ?s \<longleftrightarrow> c > 0.7"
          by (simp_all add: answer_readable_def answer_negative_def)
        show ?thesis
        proof (cases "c > 0.7")
          case True
          with n have "answer_negative ?s" by simp
          with label \<open>l = ''NEGATIVE''\<close> Some True r Cons.IH show ?thesis
            by (simp split: option.splits)
        next
          case False
          with n have "\<not> answer_negative ?s" by simp
          with label \<open>l = ''NEGATIVE''\<close> Some False r Cons.IH show ?thesis
            by (simp split: option.splits)
        qed
      qed
    qed
  qed
qed


lemma filter_negative_returned:
  assumes "filter_negative classifier items = Inr kept"
  shows "kept = map (\<lambda>item. item\<lparr>i_sentiment_score :=
                                   map_option uminus (s_score (analyze_sentiment classifier (i_content item))),
                                 i_is_negative := Some True\<rparr>)
            (filter (\<lambda>item. answer_negative (analyze_sentiment classifier (i_content item))) items)"
  using assms unfolding filter_negative_characterisation
  by (simp split: option.splits)

lemma answer_negative_score:
  "answer_negative s \<Longrightarrow> \<exists>c. s_score s = Some c \<and> c > 0.7"
  by (cases "s_score s") (simp_all add: answer_negative_def)

text \<open>
  C9. An item is kept as negative if and only if the label of its classifier result is
  NEGATIVE and the confidence is strictly greater than 0.7; a kept item stores the negated
  confidence, so its stored score is below -0.7 and cannot be confused with a positive
  confidence of the same magnitude. The loop returns exactly when every answer carries the
  keys that are read, and raises \<open>KeyError\<close> for the first answer that does not.
\<close>

theorem negative_iff_label_and_confidence:
  "filter_negative classifier items =
     (case find (\<lambda>item. \<not> answer_readable (analyze_sentiment classifier (i_content item))) items of
        None \<Rightarrow>
          Inr (map (\<lambda>item. item\<lparr>i_sentiment_score :=
                                   map_option uminus (s_score (analyze_sentiment classifier (i_content item))),
                                 i_is_negative := Some True\<rparr>)
                 (filter (\<lambda>item. answer_negative (analyze_sentiment classifier (i_content item))) items))
      | Some bad \<Rightarrow>
          Inl (KeyError (if s_label (analyze_sentiment classifier (i_content bad)) = None
                         then ''label'' else ''score'')))
   \<and> (case filter_negative classifier items of
         Inl e \<Rightarrow> True
       | Inr kept \<Rightarrow>
           list_all (\<lambda>item. case i_sentiment_score item of Some v \<Rightarrow> v < - 0.7 | None \<Rightarrow> False) kept)"
proof
  show "filter_negative classifier items =
     (case find (\<lambda>item. \<not> answer_readable (analyze_sentiment classifier (i_content item))) items of
        None \<Rightarrow>
          Inr (map (\<lambda>item. item\<lparr>i_sentiment_score :=
                                   map_option uminus (s_score (analyze_sentiment classifier (i_content item))),
                                 i_is_negative := Some True\<rparr>)
                 (filter (\<lambda>item. answer_negative (analyze_sentiment classifier (i_content item))) items))
      | Some bad \<Rightarrow>
          Inl (KeyError (if s_label (analyze_sentiment classifier (i_content bad)) = None
                         then ''label'' else ''score'')))"
    by (rule filter_negative_characterisation)
  show "case filter_negative classifier items of
         Inl e \<Rightarrow> True
       | Inr kept \<Rightarrow>
           list_all (\<lambda>item. case i_sentiment_score item of Some v \<Rightarrow> v < - 0.7 | None \<Rightarrow> False) kept"
  proof (cases "filter_negative classifier items")
    case (Inl e)
    then show ?thesis by simp
  next
    case (Inr kept)
    have "list_all (\<lambda>item. case i_sentiment_score item of Some v \<Rightarrow> v < - 0.7 | None \<Rightarrow> False) kept"
      unfolding filter_negative_returned [OF Inr] list_all_iff
      by (auto dest!: answer_negative_score)
    with Inr show ?thesis by simp
  qed
qed

lemma find_map_by_id:
  assumes "inj_on rd_id (insert row (set items))" and "\<And>x. key (f x) = rd_id x"
  shows "find (\<lambda>c. key c = rd_id row) (map f items)
         = (if row \<in> set items then Some (f row) else None)"
  using assms(1)
proof (induction items)
  case Nil
  then show ?case by simp
next
  case (Cons a items)
  have inj: "inj_on rd_id (insert row (set items))"
    using Cons.prems by (auto simp: inj_on_def)
  have eq: "rd_id a = rd_id row \<longleftrightarrow> a = row"
    using Cons.prems by (auto simp: inj_on_def)
  show ?case using Cons.IH [OF inj] eq by (auto simp: assms(2))
qed

lemma commit_rows_map:
  assumes "distinct (map rd_id rows)" and "set items \<subseteq> set rows"
    and "\<And>x. rd_id (f x) = rd_id x"
  shows "commit_rows (map f items) rows
         = map (\<lambda>row. if row \<in> set items then f row else row) rows"
proof -
  have inj: "inj_on rd_id (set rows)" using assms(1) by (simp add: distinct_map)
  have "\<And>row. row \<in> set rows \<Longrightarrow>
          find (\<lambda>c. rd_id c = rd_id row) (map f items)
          = (if row \<in> set items then Some (f row) else None)"
  proof -
    fix row assume "row \<in> set rows"
    with assms(2) have "insert row (set items) \<subseteq> set rows" by auto
    then have "inj_on rd_id (insert row (set items))" using inj by (rule inj_on_subset[rotated])
    then show "find (\<lambda>c. rd_id c = rd_id row) (map f items)
          = (if row \<in> set items then Some (f row) else None)"
      by (rule find_map_by_id) (rule assms(3))
  qed
  then show ?thesis by (simp add: commit_rows_def cong: map_cong)
qed

lemma mark_item_id: "rd_id (mark_item negative_items item) = rd_id item"
  by (simp add: mark_item_def Let_def)

lemma unprocessed_subset: "set (unprocessed_items limit d) \<subseteq> set (raw_data d)"
  by (auto simp: unprocessed_items_def dest: in_set_takeD)


lemma unprocessed_all_unscored:
  "item \<in> set (unprocessed_items limit d) \<Longrightarrow> \<not> rd_processed item \<and> rd_sentiment_score item = None"
  by (auto simp: unprocessed_items_def dest: in_set_takeD)

lemma process_sentiment_returned:
  assumes "distinct (map rd_id (raw_data d))"
    and "filter_negative classifier (map item_dict (unprocessed_items limit d)) = Inr negative_items"
  shows "process_sentiment classifier limit d =
           (Inr (if unprocessed_items limit d = [] then NoItemsToProcess
                 else Processed (length (unprocessed_items limit d)) (length negative_items)),
            d\<lparr> raw_data := map (\<lambda>row. if row \<in> set (unprocessed_items limit d)
                                         then mark_item negative_items row else row) (raw_data d) \<rparr>)"
proof (cases "unprocessed_items limit d = []")
  case True
  then show ?thesis by (simp add: process_sentiment_def)
next
  case False
  then show ?thesis
    using commit_rows_map [OF assms(1) unprocessed_subset, of "mark_item negative_items" limit] assms(2)
    by (simp add: process_sentiment_def Let_def mark_item_id)
qed

lemma process_sentiment_raised:
  assumes "filter_negative classifier (map item_dict (unprocessed_items limit d)) = Inl e"
  shows "process_sentiment classifier limit d = (Inl (HTTPException 500 (str_of_error e)), d)"
proof (cases "unprocessed_items limit d = []")
  case True
  with assms show ?thesis by simp
next
  case False
  with assms show ?thesis by (simp add: process_sentiment_def Let_def)
qed

lemma task_process_sentiment_state:
  "snd (task_process_sentiment classifier d) = snd (process_sentiment classifier 100 d)"
  by (simp add: task_process_sentiment_def process_sentiment_def unprocessed_items_def Let_def
      split: sum.splits)


lemma mark_item_none: "mark_item [] item = item\<lparr>rd_processed := True\<rparr>"
  by (simp add: mark_item_def)







lemma process_sentiment_ids:
  assumes "distinct (map rd_id (raw_data d))"
  shows "map rd_id (raw_data (snd (process_sentiment classifier limit d))) = map rd_id (raw_data d)"
proof (cases "filter_negative classifier (map item_dict (unprocessed_items limit d))")
  case (Inl e)
  then show ?thesis by (simp add: process_sentiment_raised)
next
  case (Inr negative_items)
  show ?thesis
    unfolding process_sentiment_returned [OF assms Inr] by (simp add: o_def mark_item_id)
qed

text \<open>
  C10. The sentiment pass, in main.py and in the scheduler, selects only rows with
  \<open>processed = False\<close> and \<open>sentiment_score = None\<close>. A row with a non-null sentiment
  score is not selected and is still in the table, unchanged, after the pass.
\<close>

theorem scored_item_never_selected:
  assumes "distinct (map rd_id (raw_data d))"
    and "r \<in> set (raw_data d)"
    and "rd_sentiment_score r \<noteq> None"
  shows "list_all (\<lambda>item. \<not> rd_processed item \<and> rd_sentiment_score item = None)
           (unprocessed_items limit d)
         \<and> r \<notin> set (unprocessed_items limit d)
         \<and> r \<in> set (raw_data (snd (process_sentiment classifier limit d)))
         \<and> map rd_id (raw_data (snd (process_sentiment classifier limit d))) = map rd_id (raw_data d)
         \<and> r \<in> set (raw_data (snd (task_process_sentiment classifier d)))
         \<and> map rd_id (raw_data (snd (task_process_sentiment classifier d))) = map rd_id (raw_data d)"
proof -
  have sel: "list_all (\<lambda>item. \<not> rd_processed item \<and> rd_sentiment_score item = None)
           (unprocessed_items limit d)"
    using unprocessed_all_unscored by (auto simp: list_all_iff)
  have nin: "r \<notin> set (unprocessed_items n d)" for n
    using unprocessed_all_unscored [of r n d] assms(3) by auto
  have kept: "r \<in> set (raw_data (snd (process_sentiment classifier n d)))" for n
  proof (cases "filter_negative classifier (map item_dict (unprocessed_items n d))")
    case (Inl e)
    then show ?thesis using assms(2) by (simp add: process_sentiment_raised)
  next
    case (Inr negative_items)
    let ?f = "\<lambda>row. if row \<in> set (unprocessed_items n d)
                      then mark_item negative_items row else row"
    have "?f r = r" using nin by simp
    moreover have "?f r \<in> set (map ?f (raw_data d))"
      unfolding set_map using assms(2) by (rule imageI)
    ultimately show ?thesis
      unfolding process_sentiment_returned [OF assms(1) Inr] by simp
  qed
  show ?thesis
    using sel nin kept process_sentiment_ids [OF assms(1)]
    by (simp add: task_process_sentiment_state)
qed

theorem scored_item_never_selected_witness:
  "distinct (map rd_id (raw_data two_item_db))
   \<and> scored_item \<in> set (raw_data two_item_db)
   \<and> \<not> rd_processed scored_item
   \<and> rd_sentiment_score scored_item \<noteq> None
   \<and> unprocessed_items 100 two_item_db = [fresh_item 1 ''t3_abc'' ''The export is slow'']
   \<and> scored_item \<in> set (raw_data (snd (process_sentiment failing_classifier 100 two_item_db)))"
  using scored_item_never_selected [of two_item_db scored_item 100 failing_classifier]
  by (simp add: two_item_db_def scored_item_def empty_db_def fresh_item_def unprocessed_items_def
      failing_classifier_def analyze_sentiment_def)

section \<open>Ingestion\<close>

lemma fold_max_bounds:
  "a \<le> fold max ids a \<and> (\<forall>x \<in> set ids. x \<le> fold max ids (a::nat))"
proof (induction ids arbitrary: a)
  case Nil
  show ?case by simp
next
  case (Cons y ys)
  have "max y a \<le> fold max ys (max y a)" and "\<forall>x \<in> set ys. x \<le> fold max ys (max y a)"
    using Cons.IH [of "max y a"] by simp_all
  then show ?case by (auto intro: order_trans [of _ "max y a"])
qed

lemma fresh_id_new: "fresh_id ids \<notin> set ids"
proof
  assume "fresh_id ids \<in> set ids"
  then have "fresh_id ids \<le> fold max ids 0" using fold_max_bounds [of 0 ids] by blast
  then show False by (simp add: fresh_id_def)
qed





lemma accepted_items_known:
  "set (map c_source_id items) \<subseteq> set stored \<Longrightarrow> accepted_items stored items = []"
  by (induction items) auto












section \<open>The extraction session\<close>

lemma new_session_id: "es_id (new_session env n) = n"
  by (simp add: new_session_def)

lemma put_new_session:
  assumes "es_id s' = fresh_id (map es_id ss)" and "es_id s0 = es_id s'"
  shows "put_session s' (d\<lparr> extraction_sessions := ss @ [s0] \<rparr>)
         = d\<lparr> extraction_sessions := ss @ [s'] \<rparr>"
proof -
  have "\<And>s. s \<in> set ss \<Longrightarrow> es_id s \<noteq> es_id s'"
    using fresh_id_new [of "map es_id ss"] assms(1) by (fastforce simp: image_iff)
  then have "map (\<lambda>s. if es_id s = es_id s' then s' else s) ss = ss"
    by (simp add: map_idI)
  then show ?thesis using assms(2) by (simp add: put_session_def)
qed

lemma candidate_items_sessions:
  "candidate_items limit (d\<lparr> extraction_sessions := ss \<rparr>) = candidate_items limit d"
  by (simp add: candidate_items_def processed_ids_def)

lemma one_item_db_candidates:
  "candidate_items 50 one_item_db = [fresh_item 1 ''t3_abc'' ''The export is slow'']"
  by (simp add: candidate_items_def processed_ids_def one_item_db_def empty_db_def
      List.map_filter_simps)

text \<open>
  C8. When no raw item is eligible, and the storage answers, \<open>extract_pain_points\<close>
  returns a success response with all counters 0 and leaves the new session stored with
  status \<open>completed\<close> and \<open>items_processed\<close>, \<open>pain_points_extracted\<close> and
  \<open>items_skipped\<close> all 0 (the last by its column default).
\<close>

theorem empty_batch_completes:
  assumes "candidate_items limit d = []"
    and "select_fault env = None" and "commit_fault env = None"
  shows "extract_pain_points env limit d =
           (Inr \<lparr> resp_session_id = fresh_id (map es_id (extraction_sessions d)),
                  resp_pain_points_extracted = 0, resp_items_processed = 0,
                  resp_items_skipped = 0, resp_duration_seconds = None \<rparr>,
            d\<lparr> extraction_sessions := extraction_sessions d @
                 [(new_session env (fresh_id (map es_id (extraction_sessions d))))
                    \<lparr> es_status := ''completed'', es_completed_at := Some (end_time env) \<rparr>] \<rparr>)
         \<and> es_items_processed (new_session env (fresh_id (map es_id (extraction_sessions d)))) = 0
         \<and> es_pain_points_extracted (new_session env (fresh_id (map es_id (extraction_sessions d)))) = 0
         \<and> es_items_skipped (new_session env (fresh_id (map es_id (extraction_sessions d)))) = 0"
proof -
  let ?n = "fresh_id (map es_id (extraction_sessions d))"
  let ?s = "new_session env ?n"
  let ?s' = "?s\<lparr> es_status := ''completed'', es_completed_at := Some (end_time env),
                 es_items_processed := 0, es_pain_points_extracted := 0 \<rparr>"
  have same: "?s' = ?s\<lparr> es_status := ''completed'', es_completed_at := Some (end_time env) \<rparr>"
    by (simp add: new_session_def)
  have put: "put_session ?s' (d\<lparr> extraction_sessions := extraction_sessions d @ [?s] \<rparr>)
             = d\<lparr> extraction_sessions := extraction_sessions d @ [?s'] \<rparr>"
    by (rule put_new_session) (simp_all add: new_session_id)
  have "run_session env limit ?s (d\<lparr> extraction_sessions := extraction_sessions d @ [?s] \<rparr>)
        = Inr (\<lparr> resp_session_id = ?n, resp_pain_points_extracted = 0,
                 resp_items_processed = 0, resp_items_skipped = 0,
                 resp_duration_seconds = None \<rparr>,
               d\<lparr> extraction_sessions := extraction_sessions d @ [?s'] \<rparr>)"
    unfolding run_session_def using assms put
    by (simp add: candidate_items_sessions new_session_id)
  then show ?thesis
    unfolding same by (simp add: extract_pain_points_def Let_def new_session_def)
qed

theorem empty_batch_completes_witness:
  "candidate_items 50 empty_db = []
   \<and> select_fault unavailable_env = None \<and> commit_fault unavailable_env = None
   \<and> fst (extract_pain_points unavailable_env 50 empty_db) =
        Inr \<lparr> resp_session_id = 1, resp_pain_points_extracted = 0, resp_items_processed = 0,
               resp_items_skipped = 0, resp_duration_seconds = None \<rparr>
   \<and> map es_status (extraction_sessions (snd (extract_pain_points unavailable_env 50 empty_db)))
        = [''completed'']"
  using empty_batch_completes [of 50 empty_db unavailable_env]
  by (simp add: candidate_items_def processed_ids_def empty_db_def unavailable_env_def
      fresh_id_def List.map_filter_simps)

subsection \<open>The failure path\<close>

lemma database_fault_keeps_session_in_progress:
  assumes "run_session env limit (new_session env (fresh_id (map es_id (extraction_sessions d))))
               (d\<lparr> extraction_sessions := extraction_sessions d @
                    [new_session env (fresh_id (map es_id (extraction_sessions d)))] \<rparr>)
           = Inl (FromDatabase e)"
  shows "extract_pain_points env limit d =
           (Inl PendingRollbackError,
            d\<lparr> extraction_sessions := extraction_sessions d @
                 [new_session env (fresh_id (map es_id (extraction_sessions d)))] \<rparr>)"
  unfolding extract_pain_points_def Let_def assms by simp

lemma failed_selection_keeps_session_in_progress:
  assumes "select_fault env = Some e"
  shows "extract_pain_points env limit d =
           (Inl PendingRollbackError,
            d\<lparr> extraction_sessions := extraction_sessions d @
                 [new_session env (fresh_id (map es_id (extraction_sessions d)))] \<rparr>)"
  by (rule database_fault_keeps_session_in_progress [of _ _ _ e])
     (simp add: run_session_def assms)

lemma adapter_failure_marks_session_failed:
  assumes "select_fault env = None" and "candidate_items limit d \<noteq> []"
    and "extractor_init env = Inl e" and "handler_commit_fault env = None"
  shows "extract_pain_points env limit d =
           (Inl (HTTPException 500 (str_of_error e)),
            d\<lparr> extraction_sessions := extraction_sessions d @
                 [(new_session env (fresh_id (map es_id (extraction_sessions d))))
                    \<lparr> es_status := ''failed'',
                      es_error_message := Some (str_of_error e),
                      es_completed_at := Some (end_time env) \<rparr>] \<rparr>)"
proof -
  let ?n = "fresh_id (map es_id (extraction_sessions d))"
  let ?s = "new_session env ?n"
  let ?f = "?s\<lparr> es_status := ''failed'', es_error_message := Some (str_of_error e),
                   es_completed_at := Some (end_time env) \<rparr>"
  have put: "put_session ?f (d\<lparr> extraction_sessions := extraction_sessions d @ [?s] \<rparr>)
             = d\<lparr> extraction_sessions := extraction_sessions d @ [?f] \<rparr>"
    by (rule put_new_session) (simp_all add: new_session_id)
  have run: "run_session env limit ?s (d\<lparr> extraction_sessions := extraction_sessions d @ [?s] \<rparr>)
             = Inl (FromElsewhere e)"
    using assms(1,2,3) by (simp add: run_session_def Let_def candidate_items_sessions)
  show ?thesis
    unfolding extract_pain_points_def Let_def run using put assms(4) by simp
qed

lemma adapter_failure_example:
  "extract_pain_points unavailable_env 50 one_item_db =
     (Inl (HTTPException 500 ''The api_key client option must be set''),
      one_item_db\<lparr> extraction_sessions :=
        [(new_session unavailable_env 1)
           \<lparr> es_status := ''failed'',
             es_error_message := Some ''The api_key client option must be set'',
             es_completed_at := Some 1060 \<rparr>] \<rparr>)"
proof -
  have env: "select_fault unavailable_env = None"
    "extractor_init unavailable_env = Inl (OtherError ''The api_key client option must be set'')"
    "handler_commit_fault unavailable_env = None" "end_time unavailable_env = 1060"
    by (simp_all add: unavailable_env_def)
  have cands: "candidate_items 50 one_item_db \<noteq> []"
    by (simp add: one_item_db_candidates)
  have none: "extraction_sessions one_item_db = []"
    by (simp add: one_item_db_def empty_db_def)
  show ?thesis
    using adapter_failure_marks_session_failed [OF env(1) cands env(2) env(3)]
    by (simp add: none env(4) fresh_id_def)
qed

lemma wordy_run_raises:
  "run_session wordy_env 50 (new_session wordy_env 1)
     (one_item_db\<lparr> extraction_sessions := [new_session wordy_env 1] \<rparr>)
   = Inl (FromDatabase DataError)"
proof -
  have env: "select_fault wordy_env = None" "extractor_init wordy_env = Inr wordy_llm"
    "commit_fault wordy_env = None"
    by (simp_all add: wordy_env_def)
  show ?thesis
    by (simp add: run_session_def env candidate_items_sessions one_item_db_candidates Let_def
        new_session_id to_extract_item_def fresh_item_def extractor_extract_def wordy_llm_def
        calculate_opportunity_def example_critical_def severity_scores_def save_pain_point_def
        make_pain_point_def initial_tally_def fits_pain_point_def)
qed

text \<open>
  C5. The handler of \<open>extract_pain_points\<close> sets the session to failed and commits
  without a rollback. When the exception came from the database, here a selection query
  that lost its connection and, in a second run, a commit refused because a severity of
  31 characters does not fit \<open>String(20)\<close>, that commit raises too, with the storage
  reachable: the caller gets \<open>PendingRollbackError\<close> instead of the \<open>HTTPException\<close>,
  and the stored session keeps status \<open>in_progress\<close>, no error message and no completion
  time.
\<close>

theorem database_error_leaves_session_in_progress:
  "fst (extract_pain_points reset_env 50 one_item_db) = Inl PendingRollbackError
   \<and> handler_commit_fault reset_env = None
   \<and> map es_status (extraction_sessions (snd (extract_pain_points reset_env 50 one_item_db)))
        = [''in_progress'']
   \<and> map es_error_message (extraction_sessions (snd (extract_pain_points reset_env 50 one_item_db)))
        = [None]
   \<and> map es_completed_at (extraction_sessions (snd (extract_pain_points reset_env 50 one_item_db)))
        = [None]
   \<and> fst (extract_pain_points wordy_env 50 one_item_db) = Inl PendingRollbackError
   \<and> handler_commit_fault wordy_env = None
   \<and> map es_status (extraction_sessions (snd (extract_pain_points wordy_env 50 one_item_db)))
        = [''in_progress'']
   \<and> pain_points (snd (extract_pain_points wordy_env 50 one_item_db)) = []"
proof -
  have none: "extraction_sessions one_item_db = []" "pain_points one_item_db = []"
    by (simp_all add: one_item_db_def empty_db_def)
  have reset: "extract_pain_points reset_env 50 one_item_db =
      (Inl PendingRollbackError,
       one_item_db\<lparr> extraction_sessions := [new_session reset_env 1] \<rparr>)"
    using failed_selection_keeps_session_in_progress
      [of reset_env "OtherError ''server closed the connection unexpectedly''" 50 one_item_db]
    by (simp add: reset_env_def none fresh_id_def)
  have wordy: "extract_pain_points wordy_env 50 one_item_db =
      (Inl PendingRollbackError,
       one_item_db\<lparr> extraction_sessions := [new_session wordy_env 1] \<rparr>)"
    using database_fault_keeps_session_in_progress [of wordy_env 50 one_item_db DataError]
      wordy_run_raises
    by (simp add: none fresh_id_def)
  show ?thesis
    unfolding reset wordy
    by (simp add: new_session_def none reset_env_def wordy_env_def)
qed

subsection \<open>The aggregates of a completed session\<close>






lemma make_pain_point_fields:
  assumes "make_pain_point n pp_data = Inr p"
  shows "d_category pp_data = Some (pp_category p) \<and> d_severity pp_data = Some (pp_severity p)
         \<and> pp_opportunity_score p = (case d_opportunity_score pp_data of None \<Rightarrow> 50 | Some s \<Rightarrow> s)
         \<and> pp_raw_data_id p = d_raw_data_id pp_data \<and> pp_extraction_session_id p = Some n"
  using assms by (auto simp: make_pain_point_def split: option.splits)

lemma save_pain_point_skipped:
  "make_pain_point n pp_data = Inl e \<Longrightarrow> save_pain_point n pp_data t = t"
  by (simp add: save_pain_point_def)

lemma save_pain_point_saved:
  assumes "make_pain_point n pp_data = Inr p"
  shows "save_pain_point n pp_data t =
           \<lparr> added = added t @ [p], saved_count = saved_count t + 1,
             category_counts =
               dict_set (category_counts t) (pp_category p)
                 (dict_get (category_counts t) (pp_category p) 0 + 1),
             severity_counts =
               (if dict_contains (severity_counts t) (pp_severity p)
                then dict_set (severity_counts t) (pp_severity p)
                       (dict_get (severity_counts t) (pp_severity p) 0 + 1)
                else severity_counts t),
             total_opportunity_score = total_opportunity_score t + pp_opportunity_score p \<rparr>"
  using make_pain_point_fields [OF assms] assms by (simp add: save_pain_point_def Let_def)







text \<open>A run that returns over a non-empty batch went through the save loop.\<close>

lemma run_session_completed:
  assumes "run_session env limit session d = Inr (response, d')"
    and "candidate_items limit d \<noteq> []"
  shows "\<exists>llm session'.
      extractor_init env = Inr llm
      \<and> d' = put_session session'
               (d\<lparr> pain_points := pain_points d @
                    added (fold (save_pain_point (es_id session))
                      (batch_extract llm (map to_extract_item (candidate_items limit d)))
                      initial_tally) \<rparr>)
      \<and> es_id session' = es_id session \<and> es_status session' = ''completed''
      \<and> resp_session_id response = es_id session
      \<and> es_pain_points_extracted session' =
          saved_count (fold (save_pain_point (es_id session))
            (batch_extract llm (map to_extract_item (candidate_items limit d))) initial_tally)
      \<and> resp_pain_points_extracted response = es_pain_points_extracted session'
      \<and> es_items_processed session' = length (candidate_items limit d)
      \<and> es_items_skipped session' = es_items_processed session' - es_pain_points_extracted session'
      \<and> es_category_breakdown session' =
          Some (category_counts (fold (save_pain_point (es_id session))
            (batch_extract llm (map to_extract_item (candidate_items limit d))) initial_tally))
      \<and> es_severity_breakdown session' =
          Some (severity_counts (fold (save_pain_point (es_id session))
            (batch_extract llm (map to_extract_item (candidate_items limit d))) initial_tally))
      \<and> es_high_severity_count session' =
          dict_get (severity_counts (fold (save_pain_point (es_id session))
            (batch_extract llm (map to_extract_item (candidate_items limit d))) initial_tally))
            ''high'' 0
      \<and> es_critical_severity_count session' =
          dict_get (severity_counts (fold (save_pain_point (es_id session))
            (batch_extract llm (map to_extract_item (candidate_items limit d))) initial_tally))
            ''critical'' 0"
proof (cases "select_fault env")
  case (Some e)
  with assms(1) show ?thesis by (simp add: run_session_def)
next
  case None
  note sel = this
  show ?thesis
  proof (cases "extractor_init env")
    case (Inl e)
    with assms sel show ?thesis by (simp add: run_session_def Let_def)
  next
    case (Inr llm)
    note init = this
    show ?thesis
    proof (cases "commit_fault env")
      case (Some e)
      with assms sel init show ?thesis by (simp add: run_session_def Let_def)
    next
      case None
      let ?t = "fold (save_pain_point (es_id session))
                  (batch_extract llm (map to_extract_item (candidate_items limit d))) initial_tally"
      show ?thesis
      proof (cases "list_all fits_pain_point (added ?t)")
        case False
        with assms sel init None show ?thesis by (simp add: run_session_def Let_def)
      next
        case True
        from assms sel init None True
        have "response = \<lparr> resp_session_id = es_id session,
                           resp_pain_points_extracted = saved_count ?t,
                           resp_items_processed = length (candidate_items limit d),
                           resp_items_skipped = length (candidate_items limit d) - saved_count ?t,
                           resp_duration_seconds = Some (end_time env - start_time env) \<rparr>"
          and "d' = put_session
                 (session\<lparr> es_items_processed := length (candidate_items limit d),
                           es_pain_points_extracted := saved_count ?t,
                           es_items_skipped := length (candidate_items limit d) - saved_count ?t,
                           es_avg_opportunity_score :=
                             Some (if saved_count ?t > 0
                                   then real_of_int (total_opportunity_score ?t) / real (saved_count ?t)
                                   else 0),
                           es_high_severity_count := dict_get (severity_counts ?t) ''high'' 0,
                           es_critical_severity_count := dict_get (severity_counts ?t) ''critical'' 0,
                           es_category_breakdown := Some (category_counts ?t),
                           es_severity_breakdown := Some (severity_counts ?t),
                           es_completed_at := Some (end_time env),
                           es_duration_seconds := Some (end_time env - start_time env),
                           es_status := ''completed'' \<rparr>)
                 (d\<lparr> pain_points := pain_points d @ added ?t \<rparr>)"
          by (simp_all add: run_session_def Let_def)
        then show ?thesis
          using init
          by (intro exI [of _ llm]
                exI [of _ "session\<lparr> es_items_processed := length (candidate_items limit d),
                           es_pain_points_extracted := saved_count ?t,
                           es_items_skipped := length (candidate_items limit d) - saved_count ?t,
                           es_avg_opportunity_score :=
                             Some (if saved_count ?t > 0
                                   then real_of_int (total_opportunity_score ?t) / real (saved_count ?t)
                                   else 0),
                           es_high_severity_count := dict_get (severity_counts ?t) ''high'' 0,
                           es_critical_severity_count := dict_get (severity_counts ?t) ''critical'' 0,
                           es_category_breakdown := Some (category_counts ?t),
                           es_severity_breakdown := Some (severity_counts ?t),
                           es_completed_at := Some (end_time env),
                           es_duration_seconds := Some (end_time env - start_time env),
                           es_status := ''completed'' \<rparr>"])
             simp
      qed
    qed
  qed
qed

lemma extract_pain_points_returned:
  assumes "fst (extract_pain_points env limit d) = Inr response"
  shows "run_session env limit (new_session env (fresh_id (map es_id (extraction_sessions d))))
           (d\<lparr> extraction_sessions := extraction_sessions d @
                [new_session env (fresh_id (map es_id (extraction_sessions d)))] \<rparr>)
         = Inr (response, snd (extract_pain_points env limit d))"
proof (cases "run_session env limit (new_session env (fresh_id (map es_id (extraction_sessions d))))
           (d\<lparr> extraction_sessions := extraction_sessions d @
                [new_session env (fresh_id (map es_id (extraction_sessions d)))] \<rparr>)")
  case (Inl r)
  show ?thesis
  proof (cases r)
    case (FromDatabase e)
    have "fst (extract_pain_points env limit d) = Inl PendingRollbackError"
      unfolding extract_pain_points_def Let_def Inl FromDatabase by simp
    with assms show ?thesis by simp
  next
    case (FromElsewhere e)
    have "isl (fst (extract_pain_points env limit d))"
      unfolding extract_pain_points_def Let_def Inl FromElsewhere
      by (cases "handler_commit_fault env") simp_all
    with assms show ?thesis by simp
  qed
next
  case (Inr r)
  obtain response' d' where r: "r = (response', d')" by (cases r)
  have "extract_pain_points env limit d = (Inr response', d')"
    unfolding extract_pain_points_def Let_def Inr r by simp
  with assms Inr r show ?thesis by simp
qed





subsection \<open>No second pain point for an item\<close>

lemma batch_extract_ids:
  "set (map d_raw_data_id (batch_extract llm items)) \<subseteq> (\<lambda>item. Some (x_id item)) ` set items"
  by (induction items) (auto split: option.splits)

lemma batch_extract_distinct:
  "distinct (map x_id items) \<Longrightarrow> distinct (map d_raw_data_id (batch_extract llm items))"
proof (induction items)
  case Nil
  show ?case by simp
next
  case (Cons item items)
  then have rest: "distinct (map d_raw_data_id (batch_extract llm items))"
    and new: "x_id item \<notin> x_id ` set items"
    by simp_all
  have "Some (x_id item) \<notin> set (map d_raw_data_id (batch_extract llm items))"
    using batch_extract_ids [of llm items] new by auto
  with rest show ?case by (simp split: option.splits)
qed

lemma save_loop_ids:
  "map pp_raw_data_id (added (fold (save_pain_point n) pps t))
     = map pp_raw_data_id (added t)
       @ map d_raw_data_id (filter (\<lambda>pp_data. \<not> isl (make_pain_point n pp_data)) pps)"
proof (induction pps arbitrary: t)
  case Nil
  show ?case by simp
next
  case (Cons pp_data pps)
  show ?case
  proof (cases "make_pain_point n pp_data")
    case (Inl e)
    then show ?thesis using Cons.IH [of t] by (simp add: save_pain_point_skipped)
  next
    case (Inr p)
    then show ?thesis
      using Cons.IH [of "save_pain_point n pp_data t"] make_pain_point_fields [OF Inr]
      by (simp add: save_pain_point_saved)
  qed
qed

lemma candidate_items_distinct:
  assumes "distinct (map rd_id (raw_data d))"
  shows "distinct (map rd_id (candidate_items limit d))"
proof -
  have "distinct (map rd_id (filter P (raw_data d)))" for P
    using assms by (rule distinct_map_filter)
  then have "distinct (take limit (map rd_id (filter P (raw_data d))))" for P
    by (rule distinct_take)
  then show ?thesis by (simp add: candidate_items_def Let_def take_map)
qed



lemma put_session_tables:
  "pain_points (put_session s d) = pain_points d" "raw_data (put_session s d) = raw_data d"
  by (simp_all add: put_session_def)

lemma run_session_empty:
  assumes "run_session env limit session d = Inr (response, d')"
    and "candidate_items limit d = []"
  shows "pain_points d' = pain_points d \<and> raw_data d' = raw_data d"
proof (cases "select_fault env")
  case (Some e)
  with assms(1) show ?thesis by (simp add: run_session_def)
next
  case None
  note sel = this
  show ?thesis
  proof (cases "commit_fault env")
    case (Some e)
    with assms sel show ?thesis by (simp add: run_session_def)
  next
    case None
    with assms sel show ?thesis by (auto simp: run_session_def put_session_tables)
  qed
qed

lemma extract_pain_points_raised:
  assumes "fst (extract_pain_points env limit d) = Inl err"
  shows "pain_points (snd (extract_pain_points env limit d)) = pain_points d
         \<and> raw_data (snd (extract_pain_points env limit d)) = raw_data d"
proof (cases "run_session env limit (new_session env (fresh_id (map es_id (extraction_sessions d))))
           (d\<lparr> extraction_sessions := extraction_sessions d @
                [new_session env (fresh_id (map es_id (extraction_sessions d)))] \<rparr>)")
  case (Inl r)
  show ?thesis
  proof (cases r)
    case (FromDatabase e)
    show ?thesis unfolding extract_pain_points_def Let_def Inl FromDatabase by simp
  next
    case (FromElsewhere e)
    show ?thesis
      unfolding extract_pain_points_def Let_def Inl FromElsewhere
      by (cases "handler_commit_fault env") (simp_all add: put_session_tables)
  qed
next
  case (Inr r)
  obtain response' d' where r: "r = (response', d')" by (cases r)
  have "extract_pain_points env limit d = (Inr response', d')"
    unfolding extract_pain_points_def Let_def Inr r by simp
  with assms show ?thesis by simp
qed

text \<open>
  What one call of the endpoint adds: pain points that reference candidates of this
  call, no two of them the same one.
\<close>

lemma extract_pain_points_effect:
  "\<exists>new. pain_points (snd (extract_pain_points env limit d)) = pain_points d @ new
     \<and> raw_data (snd (extract_pain_points env limit d)) = raw_data d
     \<and> set (map pp_raw_data_id new) \<subseteq> (\<lambda>item. Some (rd_id item)) ` set (candidate_items limit d)
     \<and> (distinct (map rd_id (raw_data d)) \<longrightarrow> distinct (map pp_raw_data_id new))"
proof (cases "fst (extract_pain_points env limit d)")
  case (Inl err)
  then show ?thesis
    using extract_pain_points_raised [OF Inl] by (intro exI [of _ "[]"]) simp
next
  case (Inr response)
  let ?n = "fresh_id (map es_id (extraction_sessions d))"
  let ?s = "new_session env ?n"
  let ?d = "d\<lparr> extraction_sessions := extraction_sessions d @ [?s] \<rparr>"
  have run: "run_session env limit ?s ?d = Inr (response, snd (extract_pain_points env limit d))"
    using Inr by (rule extract_pain_points_returned)
  show ?thesis
  proof (cases "candidate_items limit d = []")
    case True
    then have "candidate_items limit ?d = []" by (simp add: candidate_items_sessions)
    from run_session_empty [OF run this] show ?thesis
      by (intro exI [of _ "[]"]) simp
  next
    case False
    then have cands: "candidate_items limit ?d \<noteq> []" by (simp add: candidate_items_sessions)
    from run_session_completed [OF run cands] obtain llm session' where
      stored: "snd (extract_pain_points env limit d) = put_session session'
               (?d\<lparr> pain_points := pain_points ?d @
                    added (fold (save_pain_point (es_id ?s))
                      (batch_extract llm (map to_extract_item (candidate_items limit ?d)))
                      initial_tally) \<rparr>)"
      by blast
    define data where "data = batch_extract llm (map to_extract_item (candidate_items limit d))"
    define new where "new = added (fold (save_pain_point ?n) data initial_tally)"
    have tables: "pain_points (snd (extract_pain_points env limit d)) = pain_points d @ new"
      "raw_data (snd (extract_pain_points env limit d)) = raw_data d"
      unfolding stored
      by (simp_all add: put_session_tables new_def data_def new_session_id candidate_items_sessions)
    have ids: "map pp_raw_data_id new
        = map d_raw_data_id (filter (\<lambda>pp_data. \<not> isl (make_pain_point ?n pp_data)) data)"
      unfolding new_def save_loop_ids by (simp add: initial_tally_def)
    have items: "map x_id (map to_extract_item (candidate_items limit d))
        = map rd_id (candidate_items limit d)"
      by (simp add: to_extract_item_def)
    have "set (map d_raw_data_id data)
        \<subseteq> (\<lambda>item. Some (x_id item)) ` set (map to_extract_item (candidate_items limit d))"
      unfolding data_def by (rule batch_extract_ids)
    also have "\<dots> = (\<lambda>item. Some (rd_id item)) ` set (candidate_items limit d)"
      by (auto simp: to_extract_item_def image_iff)
    finally have sub: "set (map pp_raw_data_id new)
        \<subseteq> (\<lambda>item. Some (rd_id item)) ` set (candidate_items limit d)"
      unfolding ids by auto
    have dist: "distinct (map pp_raw_data_id new)" if "distinct (map rd_id (raw_data d))"
    proof -
      have "distinct (map rd_id (candidate_items limit d))"
        using that by (rule candidate_items_distinct)
      then have "distinct (map x_id (map to_extract_item (candidate_items limit d)))"
        unfolding items .
      then have "distinct (map d_raw_data_id data)"
        unfolding data_def by (rule batch_extract_distinct)
      then show ?thesis unfolding ids by (rule distinct_map_filter)
    qed
    show ?thesis
      using tables sub dist by (intro exI [of _ new]) blast
  qed
qed

lemma task_extract_none: "task_extract llm t = None"
  by (simp add: task_extract_def calculate_opportunity_registry_def
      split: llm_result.splits option.splits)

lemma task_batch_extract_nothing: "task_batch_extract llm items = []"
  by (induction items) (simp_all add: task_extract_none)

lemma task_extract_pain_points_stores_nothing:
  "snd (task_extract_pain_points init d) = d"
  by (cases init) (simp_all add: task_extract_pain_points_def Let_def task_batch_extract_nothing)


lemma run_extraction_raw_data: "raw_data (run_extraction run d) = raw_data d"
proof (cases run)
  case (Endpoint env limit)
  then show ?thesis using extract_pain_points_effect [of env limit d] by auto
next
  case (ScheduledTask init)
  then show ?thesis by (simp add: task_extract_pain_points_stores_nothing)
qed



lemma run_extractions_raw_data: "raw_data (run_extractions runs d) = raw_data d"
  by (induction runs arbitrary: d) (simp_all add: run_extraction_raw_data)





end
